theory Spec2Isabelle
  imports Main "HOL-Library.Sublist" "HOL-Library.AList"
begin

section \<open>Strings: the Python operations used by dump.py\<close>

text \<open>
  \<^verbatim>\<open>str.find(sub)\<close> gives the lowest index at which \<open>sub\<close> starts, or \<open>-1\<close>
  when it occurs nowhere. The scan goes left to right; the counter is the index of the
  position under inspection.
\<close>

fun find_from :: "string \<Rightarrow> string \<Rightarrow> nat \<Rightarrow> int" where
  "find_from sub [] i = (if sub = [] then int i else - 1)"
| "find_from sub (c # cs) i =
     (if prefix sub (c # cs) then int i else find_from sub cs (Suc i))"

definition str_find :: "string \<Rightarrow> string \<Rightarrow> int" where
  "str_find s sub = find_from sub s 0"

text \<open>
  The slice \<^verbatim>\<open>s[k:]\<close>: a negative start counts from the end, and a start outside
  the string is clamped, so the slice never raises.
\<close>

definition slice_from :: "string \<Rightarrow> int \<Rightarrow> string" where
  "slice_from s k =
     (if k < 0 then drop (nat (max 0 (int (length s) + k))) s else drop (nat k) s)"

text \<open>
  \<^verbatim>\<open>
  def extract_path(origin_path):
      index = origin_path.find('.app/')
      return origin_path[index + 5:]
  \<close>
\<close>

definition extract_path :: "string \<Rightarrow> string" where
  "extract_path origin_path =
     (let index = str_find origin_path ''.app/'' in slice_from origin_path (index + 5))"

text \<open>The start indices of the occurrences of \<open>sub\<close> in \<open>s\<close>, in increasing order.\<close>

definition occurrences :: "string \<Rightarrow> string \<Rightarrow> nat list" where
  "occurrences sub s = filter (\<lambda>i. prefix sub (drop i s)) [0..<Suc (length s)]"

text \<open>\<^verbatim>\<open>os.path.basename\<close> (posix): what follows the last slash.\<close>

definition basename :: "string \<Rightarrow> string" where
  "basename p = rev (takeWhile (\<lambda>c. c \<noteq> CHR ''/'') (rev p))"

text \<open>
  \<^verbatim>\<open>os.path.join\<close> (posix) of two components: an absolute second component
  replaces the first; otherwise one slash separates them unless the first is empty or
  already ends with one.
\<close>

definition join2 :: "string \<Rightarrow> string \<Rightarrow> string" where
  "join2 a b =
     (if b \<noteq> [] \<and> hd b = CHR ''/'' then b
      else if a = [] \<or> last a = CHR ''/'' then a @ b
      else a @ ''/'' @ b)"

definition join3 :: "string \<Rightarrow> string \<Rightarrow> string \<Rightarrow> string" where
  "join3 a b c = join2 (join2 a b) c"

section \<open>Progress bars\<close>

text \<open>What the program reads and writes of a \<^verbatim>\<open>tqdm\<close> bar.\<close>

record tqdm =
  tqdm_desc :: string
  tqdm_total :: "int option"
  tqdm_n :: int

definition tqdm_new :: tqdm where
  "tqdm_new = \<lparr>tqdm_desc = [], tqdm_total = None, tqdm_n = 0\<rparr>"

definition tqdm_update :: "int \<Rightarrow> tqdm \<Rightarrow> tqdm" where
  "tqdm_update k t = t\<lparr>tqdm_n := tqdm_n t + k\<rparr>"

text \<open>
  The callback \<open>scp_transfer\<close> hands to the copy channel. It keeps nothing between two
  reports: each one gets a bar of its own, and the value is that bar as it is shown.
  \<^verbatim>\<open>
  def progress_bar(filename, size, sent):
      base_name = os.path.basename(filename.decode('utf-8') if isinstance(filename, bytes) else filename)
      t = tqdm(unit='B', unit_scale=True, unit_divisor=1024, miniters=1)
      t.desc = base_name
      t.total = size
      t.update(sent)
  \<close>
\<close>

definition progress_bar :: "string \<Rightarrow> int \<Rightarrow> int \<Rightarrow> tqdm" where
  "progress_bar filename size' sent =
     (let base_name = basename filename;
          t1 = tqdm_new\<lparr>tqdm_desc := base_name\<rparr>;
          t2 = t1\<lparr>tqdm_total := Some size'\<rparr> in
      tqdm_update sent t2)"

section \<open>The world outside the program\<close>

text \<open>
  Exceptions the program can meet. All three are subclasses of Python's
  \<^verbatim>\<open>Exception\<close>, which is what the handlers of dump.py catch.
\<close>

datatype exn = KeyError string | CalledProcessError string | OtherException string

text \<open>What the program does to the outside world, in the order it does it.\<close>

datatype action =
    ScpGet string string bool
  | Chmod string
  | Move string string
  | Zip string string string
  | Rmtree string
  | Spawn "string list"
  | Attach nat
  | Resume nat

text \<open>The lines the program prints.\<close>

datatype printed =
    Transferring string string
  | ChangingPermissions string
  | ErrorSettingPermissions exn
  | ErrorDuringTransfer exn
  | Generating string
  | ErrorGeneratingIpa exn
  | StartingApp string
  | ErrorStartingApp exn

text \<open>
  The outcome of every call that leaves the program is a parameter: the remote copy, the
  file system and the external commands answer through this record (\<open>None\<close>: the call
  returned; \<open>Some e\<close>: it raised \<open>e\<close>). \<open>scp_get_reports\<close> is what the copy channel
  reports to its progress callback in the course of a pull.
\<close>

record world =
  TEMP_DIR :: string
  getcwd :: string
  scp_get_result :: "string \<Rightarrow> string \<Rightarrow> bool \<Rightarrow> exn option"
  scp_get_reports :: "string \<Rightarrow> string \<Rightarrow> bool \<Rightarrow> (string \<times> int \<times> int) list"
  exists_result :: "string \<Rightarrow> bool"
  chmod_result :: "string \<Rightarrow> exn option"
  move_result :: "string \<Rightarrow> string \<Rightarrow> exn option"
  zip_result :: "string \<Rightarrow> exn option"
  rmtree_result :: "string \<Rightarrow> exn option"

definition PAYLOAD_DIR :: string where
  "PAYLOAD_DIR = ''Payload''"

definition PAYLOAD_PATH :: "world \<Rightarrow> string" where
  "PAYLOAD_PATH w = join2 (TEMP_DIR w) PAYLOAD_DIR"

section \<open>The module's global state\<close>

text \<open>
  \<open>FILE_DICT\<close> is a Python dict: insertion-ordered, and an assignment to a key it
  already holds replaces the value in place. \<open>FINISHED\<close> is the flag of the
  \<^verbatim>\<open>threading.Event\<close>; the program only ever calls \<^verbatim>\<open>set\<close> and
  \<^verbatim>\<open>wait\<close> on it. Next to them the state keeps what the program has shown and done:
  the lines printed, the actions performed, the progress bars displayed.
\<close>

record state =
  FILE_DICT :: "(string \<times> string) list"
  FINISHED :: bool
  stdout :: "printed list"
  actions :: "action list"
  bars :: "tqdm list"

definition initial_state :: state where
  "initial_state = \<lparr>FILE_DICT = [], FINISHED = False, stdout = [], actions = [], bars = []\<rparr>"

definition FINISHED_set :: "state \<Rightarrow> state" where
  "FINISHED_set s = s\<lparr>FINISHED := True\<rparr>"

definition print :: "printed \<Rightarrow> state \<Rightarrow> state" where
  "print line s = s\<lparr>stdout := stdout s @ [line]\<rparr>"

definition perform :: "action \<Rightarrow> state \<Rightarrow> state" where
  "perform a s = s\<lparr>actions := actions s @ [a]\<rparr>"

section \<open>scp\_transfer\<close>

text \<open>
  The two handlers of \<open>scp_transfer\<close> guard its whole body, so the class of the
  exception picks the line, wherever it was raised.
\<close>

definition scp_transfer_except :: "exn \<Rightarrow> state \<Rightarrow> state" where
  "scp_transfer_except e s =
     (case e of
        CalledProcessError _ \<Rightarrow> print (ErrorSettingPermissions e) s
      | _ \<Rightarrow> print (ErrorDuringTransfer e) s)"

text \<open>
  \<^verbatim>\<open>
  def scp_transfer(src, dest, recursive=False):
      try:
          print(f"Transferring {src} to {dest} via SCP")
          with SCPClient(ssh.get_transport(), progress=progress_bar, socket_timeout=60) as scp:
              scp.get(src, dest, recursive=recursive)
          base_name = os.path.basename(src).decode('utf-8') if isinstance(src, bytes) else src
          dest_path = os.path.join(dest, base_name)
          if os.path.exists(dest_path):
              print(f"Changing permissions for {dest_path}")
              chmod_args = ('chmod', '755', dest_path)
              subprocess.check_call(chmod_args)
      except subprocess.CalledProcessError as err:
          print(f"Error setting file permissions: {err}")
      except Exception as e:
          print(f"Error during SCP transfer: {e}")
  \<close>
  The paths are \<^verbatim>\<open>str\<close>, so \<open>base_name\<close> is \<open>src\<close> itself. The function returns
  nothing and raises nothing: its caller cannot tell a pull that failed from one that
  succeeded.
\<close>

text \<open>
  During a pull the copy channel calls the callback it was given, \<open>progress_bar\<close>, once
  for each report \<open>(filename, size, sent)\<close>; every call shows a bar.
\<close>

definition report_progress :: "(string \<times> int \<times> int) list \<Rightarrow> state \<Rightarrow> state" where
  "report_progress reports s =
     s\<lparr>bars := bars s @ map (\<lambda>(filename, size', sent). progress_bar filename size' sent) reports\<rparr>"

definition scp_transfer :: "world \<Rightarrow> string \<Rightarrow> string \<Rightarrow> bool \<Rightarrow> state \<Rightarrow> state" where
  "scp_transfer w src dest recursive s =
     (let s1 = report_progress (scp_get_reports w src dest recursive)
                 (perform (ScpGet src dest recursive) (print (Transferring src dest) s)) in
      case scp_get_result w src dest recursive of
        Some e \<Rightarrow> scp_transfer_except e s1
      | None \<Rightarrow>
          (let base_name = src;
               dest_path = join2 dest base_name in
           if exists_result w dest_path then
             (let s2 = perform (Chmod dest_path) (print (ChangingPermissions dest_path) s1) in
              case chmod_result w dest_path of
                Some e \<Rightarrow> scp_transfer_except e s2
              | None \<Rightarrow> s2)
           else s1))"

section \<open>on\_message\<close>

text \<open>
  A payload is the dict the agent sends: keys \<open>dump\<close>, \<open>path\<close>, \<open>app\<close>, \<open>done\<close>,
  each present or not. A message is the payload under its \<open>payload\<close> key, when it has
  one.
\<close>

type_synonym payload = "string \<rightharpoonup> string"

type_synonym message = "payload option"

text \<open>
  \<^verbatim>\<open>
  if 'dump' in payload:
      scp_transfer(payload['dump'], PAYLOAD_PATH)
      FILE_DICT[os.path.basename(payload['dump'])] = extract_path(payload['path'])
  \<close>
  The right-hand side is evaluated after the transfer and before the store: a payload
  with \<open>dump\<close> and no \<open>path\<close> raises \<open>KeyError\<close> once the pull is over.
\<close>

definition on_dump :: "world \<Rightarrow> payload \<Rightarrow> state \<Rightarrow> exn option \<times> state" where
  "on_dump w payload s =
     (case payload ''dump'' of
        None \<Rightarrow> (None, s)
      | Some d \<Rightarrow>
          (let s1 = scp_transfer w d (PAYLOAD_PATH w) False s in
           case payload ''path'' of
             None \<Rightarrow> (Some (KeyError ''path''), s1)
           | Some p \<Rightarrow>
               (None, s1\<lparr>FILE_DICT := AList.update (basename d) (extract_path p) (FILE_DICT s1)\<rparr>)))"

text \<open>
  \<^verbatim>\<open>
  if 'app' in payload:
      scp_transfer(payload['app'], PAYLOAD_PATH, recursive=True)
      FILE_DICT['app'] = os.path.basename(payload['app'])
  \<close>
\<close>

definition on_app :: "world \<Rightarrow> payload \<Rightarrow> state \<Rightarrow> state" where
  "on_app w payload s =
     (case payload ''app'' of
        None \<Rightarrow> s
      | Some a \<Rightarrow>
          (let s1 = scp_transfer w a (PAYLOAD_PATH w) True s in
           s1\<lparr>FILE_DICT := AList.update ''app'' (basename a) (FILE_DICT s1)\<rparr>))"

text \<open>
  \<^verbatim>\<open>
  if 'done' in payload:
      FINISHED.set()
  \<close>
\<close>

definition on_done :: "payload \<Rightarrow> state \<Rightarrow> state" where
  "on_done payload s = (if payload ''done'' \<noteq> None then FINISHED_set s else s)"

text \<open>
  \<open>on_message\<close> runs the three blocks in this order. The progress bar it creates and
  closes is written to by nothing (see \<open>progress\<close> below). The result is the exception
  that leaves the function, if any, and the state it leaves behind.
\<close>

definition on_message :: "world \<Rightarrow> message \<Rightarrow> state \<Rightarrow> exn option \<times> state" where
  "on_message w message s =
     (case message of
        None \<Rightarrow> (None, s)
      | Some payload \<Rightarrow>
          (case on_dump w payload s of
             (Some e, s1) \<Rightarrow> (Some e, s1)
           | (None, s1) \<Rightarrow> (None, on_done payload (on_app w payload s1))))"

text \<open>
  The notifications of a run, handed to \<open>on_message\<close> one after the other. An exception
  that leaves \<open>on_message\<close> is the caller's to deal with; delivery stops there.
\<close>

fun deliver :: "world \<Rightarrow> message list \<Rightarrow> state \<Rightarrow> exn option \<times> state" where
  "deliver w [] s = (None, s)"
| "deliver w (m # ms) s =
     (case on_message w m s of
        (Some e, s1) \<Rightarrow> (Some e, s1)
      | (None, s1) \<Rightarrow> deliver w ms s1)"

section \<open>generate\_ipa\<close>

text \<open>
  \<^verbatim>\<open>
  for key, value in FILE_DICT.items():
      src = os.path.join(path, key)
      dest = os.path.join(path, app_name, value)
      if key != 'app':
          shutil.move(src, dest)
  \<close>
  The loop ends at the first move that raises.
\<close>

fun move_all :: "world \<Rightarrow> string \<Rightarrow> string \<Rightarrow> (string \<times> string) list \<Rightarrow> state
    \<Rightarrow> exn option \<times> state" where
  "move_all w path app_name' [] s = (None, s)"
| "move_all w path app_name' ((key, val) # items) s =
     (let src = join2 path key;
          dest = join3 path app_name' val in
      if key \<noteq> ''app'' then
        (let s1 = perform (Move src dest) s in
         case move_result w src dest of
           Some e \<Rightarrow> (Some e, s1)
         | None \<Rightarrow> move_all w path app_name' items s1)
      else move_all w path app_name' items s)"

definition generate_ipa_except :: "exn \<Rightarrow> state \<Rightarrow> state" where
  "generate_ipa_except e s = FINISHED_set (print (ErrorGeneratingIpa e) s)"

text \<open>
  \<^verbatim>\<open>
  def generate_ipa(path, display_name):
      ipa_filename = f'{display_name}.ipa'
      print(f'Generating "{ipa_filename}"')
      try:
          app_name = FILE_DICT['app']
          for key, value in FILE_DICT.items(): ...
          zip_args = ('zip', '-qr', os.path.join(os.getcwd(), ipa_filename), PAYLOAD_DIR)
          subprocess.check_call(zip_args, cwd=TEMP_DIR)
          shutil.rmtree(PAYLOAD_PATH)
      except Exception as e:
          print(f"Error generating IPA: {e}")
          FINISHED.set()
  \<close>
\<close>

definition generate_ipa :: "world \<Rightarrow> string \<Rightarrow> string \<Rightarrow> state \<Rightarrow> state" where
  "generate_ipa w path display_name s =
     (let ipa_filename = display_name @ ''.ipa'';
          s1 = print (Generating ipa_filename) s in
      case map_of (FILE_DICT s1) ''app'' of
        None \<Rightarrow> generate_ipa_except (KeyError ''app'') s1
      | Some app_name' \<Rightarrow>
          (case move_all w path app_name' (FILE_DICT s1) s1 of
             (Some e, s2) \<Rightarrow> generate_ipa_except e s2
           | (None, s2) \<Rightarrow>
               (let archive = join2 (getcwd w) ipa_filename;
                    s3 = perform (Zip archive PAYLOAD_DIR (TEMP_DIR w)) s2 in
                case zip_result w archive of
                  Some e \<Rightarrow> generate_ipa_except e s3
                | None \<Rightarrow>
                    (let s4 = perform (Rmtree (PAYLOAD_PATH w)) s3 in
                     case rmtree_result w (PAYLOAD_PATH w) of
                       Some e \<Rightarrow> generate_ipa_except e s4
                     | None \<Rightarrow> s4))))"

section \<open>open\_target\_app\<close>

record app =
  app_pid :: nat
  app_name :: string
  app_identifier :: string

datatype session = Session nat

text \<open>The device answers through this record, like the world above.\<close>

record device =
  enumerate_applications_result :: "exn + app list"
  spawn_result :: "string list \<Rightarrow> exn + nat"
  attach_result :: "nat \<Rightarrow> exn + session"
  resume_result :: "nat \<Rightarrow> exn option"

text \<open>
  \<^verbatim>\<open>sys.exit\<close> raises \<^verbatim>\<open>SystemExit\<close>, which is not an \<^verbatim>\<open>Exception\<close>: no
  handler of the program catches it.
  \<^verbatim>\<open>
  def get_applications(device):
      try:
          return device.enumerate_applications()
      except Exception as e:
          sys.exit(f'Failed to enumerate applications: {e}')
  \<close>
\<close>

datatype system_exit = SystemExit exn

definition get_applications :: "device \<Rightarrow> system_exit + app list" where
  "get_applications dev =
     (case enumerate_applications_result dev of
        Inl e \<Rightarrow> Inl (SystemExit e)
      | Inr apps \<Rightarrow> Inr apps)"

text \<open>
  The variable \<open>pid\<close> of \<open>open_target_app\<close> starts as the empty string and is later an
  integer; \<^verbatim>\<open>not pid\<close> holds of the empty string and of \<open>0\<close>.
\<close>

datatype pid_value = EmptyStr | Pid nat

text \<open>
  \<^verbatim>\<open>
  for app in get_applications(device):
      if app_id == app.identifier or app_id == app.name:
          pid, display_name, bundle_identifier = app.pid, app.name, app.identifier
  \<close>
\<close>

fun select_app :: "string \<Rightarrow> app list \<Rightarrow> pid_value \<times> string \<times> string
    \<Rightarrow> pid_value \<times> string \<times> string" where
  "select_app app_id [] sel = sel"
| "select_app app_id (a # rest) sel =
     select_app app_id rest
       (if app_id = app_identifier a \<or> app_id = app_name a
        then (Pid (app_pid a), app_name a, app_identifier a) else sel)"

text \<open>
  \<^verbatim>\<open>
  pid = device.spawn([bundle_identifier])
  session = device.attach(pid)
  device.resume(pid)
  \<close>
  under \<^verbatim>\<open>except Exception as e: print(f"Error starting app: {e}")\<close>. \<open>session\<close> is
  \<open>None\<close> until \<open>attach\<close> has returned.
\<close>

definition spawn_attach_resume :: "device \<Rightarrow> string \<Rightarrow> state \<Rightarrow> session option \<times> state" where
  "spawn_attach_resume dev bundle_identifier s =
     (let s1 = perform (Spawn [bundle_identifier]) s in
      case spawn_result dev [bundle_identifier] of
        Inl e \<Rightarrow> (None, print (ErrorStartingApp e) s1)
      | Inr p \<Rightarrow>
          (let s2 = perform (Attach p) s1 in
           case attach_result dev p of
             Inl e \<Rightarrow> (None, print (ErrorStartingApp e) s2)
           | Inr sess \<Rightarrow>
               (let s3 = perform (Resume p) s2 in
                case resume_result dev p of
                  Some e \<Rightarrow> (Some sess, print (ErrorStartingApp e) s3)
                | None \<Rightarrow> (Some sess, s3))))"

definition attach_running :: "device \<Rightarrow> nat \<Rightarrow> state \<Rightarrow> session option \<times> state" where
  "attach_running dev p s =
     (let s1 = perform (Attach p) s in
      case attach_result dev p of
        Inl e \<Rightarrow> (None, print (ErrorStartingApp e) s1)
      | Inr sess \<Rightarrow> (Some sess, s1))"

text \<open>
  \<^verbatim>\<open>
  def open_target_app(device, app_id):
      print(f'Starting app {app_id}')
      pid, session, display_name, bundle_identifier = '', None, '', ''
      for app in get_applications(device): ...
      try:
          if not pid: ... spawn, attach, resume
          else: session = device.attach(pid)
      except Exception as e:
          print(f"Error starting app: {e}")
      return session, display_name, bundle_identifier
  \<close>
\<close>

definition open_target_app :: "device \<Rightarrow> string \<Rightarrow> state
    \<Rightarrow> (system_exit + session option \<times> string \<times> string) \<times> state" where
  "open_target_app dev app_id s =
     (let s1 = print (StartingApp app_id) s in
      case get_applications dev of
        Inl x \<Rightarrow> (Inl x, s1)
      | Inr apps \<Rightarrow>
          (case select_app app_id apps (EmptyStr, [], []) of
             (pidv, display_name, bundle_identifier) \<Rightarrow>
               (case (case pidv of
                        EmptyStr \<Rightarrow> spawn_attach_resume dev bundle_identifier s1
                      | Pid p \<Rightarrow>
                          if p = 0 then spawn_attach_resume dev bundle_identifier s1
                          else attach_running dev p s1) of
                  (sess, s2) \<Rightarrow> (Inr (sess, display_name, bundle_identifier), s2))))"

section \<open>The closure progress of on\_message\<close>

text \<open>
  The closure of \<open>on_message\<close>: its bar \<open>t\<close> and the cell \<open>last_sent[0]\<close>. Nothing
  registers it with the copy channel and nothing calls it.
  \<^verbatim>\<open>
  t = tqdm(unit='B', unit_scale=True, unit_divisor=1024, miniters=1)
  last_sent = [0]

  def progress(filename, size, sent):
      base_name = os.path.basename(filename)
      t.desc = base_name
      t.total = size
      t.update(sent - last_sent[0])
      last_sent[0] = 0 if size == sent else sent
  \<close>
\<close>

record progress_vars =
  bar :: tqdm
  last_sent :: int

definition progress :: "string \<Rightarrow> int \<Rightarrow> int \<Rightarrow> progress_vars \<Rightarrow> progress_vars" where
  "progress filename size' sent v =
     (let base_name = basename filename;
          t1 = (bar v)\<lparr>tqdm_desc := base_name\<rparr>;
          t2 = t1\<lparr>tqdm_total := Some size'\<rparr>;
          t3 = tqdm_update (sent - last_sent v) t2 in
      \<lparr>bar = t3, last_sent = (if size' = sent then 0 else sent)\<rparr>)"

section \<open>A run as a sequence of operations on the global state\<close>

text \<open>
  Every function of the program that touches the global state, and the
  \<^verbatim>\<open>FINISHED.set()\<close> with which \<open>main\<close> ends.
\<close>

datatype operation =
    OnMessage message
  | ScpTransfer string string bool
  | GenerateIpa string string
  | OpenTargetApp device string
  | MainEnd

fun step :: "world \<Rightarrow> operation \<Rightarrow> state \<Rightarrow> state" where
  "step w (OnMessage m) s = snd (on_message w m s)"
| "step w (ScpTransfer src dest recursive) s = scp_transfer w src dest recursive s"
| "step w (GenerateIpa path display_name) s = generate_ipa w path display_name s"
| "step w (OpenTargetApp dev app_id) s = snd (open_target_app dev app_id s)"
| "step w MainEnd s = FINISHED_set s"

fun run :: "world \<Rightarrow> operation list \<Rightarrow> state \<Rightarrow> state" where
  "run w [] s = s"
| "run w (x # xs) s = run w xs (step w x s)"

section \<open>Reading the trace, and sample worlds\<close>

text \<open>The moves among the actions performed, in order.\<close>

fun moves :: "action list \<Rightarrow> (string \<times> string) list" where
  "moves [] = []"
| "moves (Move src dest # xs) = (src, dest) # moves xs"
| "moves (_ # xs) = moves xs"

text \<open>
  A world in which every call succeeds and the copy channel reports nothing, one in which
  every pull times out, and one in which every pull reports its progress twice.
\<close>

definition calm_world :: world where
  "calm_world =
     \<lparr>TEMP_DIR = ''/tmp'', getcwd = ''/home/user'',
      scp_get_result = (\<lambda>src dest recursive. None),
      scp_get_reports = (\<lambda>src dest recursive. []),
      exists_result = (\<lambda>p. False),
      chmod_result = (\<lambda>p. None),
      move_result = (\<lambda>src dest. None),
      zip_result = (\<lambda>archive. None),
      rmtree_result = (\<lambda>p. None)\<rparr>"

definition timeout_world :: world where
  "timeout_world = calm_world\<lparr>scp_get_result := (\<lambda>src dest recursive. Some (OtherException ''timed out''))\<rparr>"


text \<open>The notifications of the dump of an application \<open>Foo\<close>.\<close>

definition foo_bundle :: message where
  "foo_bundle = Some [''app'' \<mapsto> ''/var/.../Foo.app'']"

definition foo_plist :: message where
  "foo_plist = Some [''dump'' \<mapsto> ''/var/.../Foo.plist'', ''path'' \<mapsto> ''/var/.../Foo.app/Foo.plist'']"

definition foo_plist_bare :: message where
  "foo_plist_bare = Some [''dump'' \<mapsto> ''/var/.../Foo.plist'', ''path'' \<mapsto> ''/var/.../Foo.plist'']"

definition completed :: message where
  "completed = Some [''done'' \<mapsto> ''ok'']"

text \<open>Sample devices: two installed copies answer to the name \<open>Foo\<close>.\<close>

definition foo_apps :: "app list" where
  "foo_apps =
     [\<lparr>app_pid = 41, app_name = ''Foo'', app_identifier = ''com.example.foo''\<rparr>,
      \<lparr>app_pid = 0, app_name = ''Bar'', app_identifier = ''com.example.bar''\<rparr>,
      \<lparr>app_pid = 77, app_name = ''Foo'', app_identifier = ''com.example.foo.beta''\<rparr>]"

definition foo_device :: device where
  "foo_device =
     \<lparr>enumerate_applications_result = Inr foo_apps,
      spawn_result = (\<lambda>argv. if argv = [''''] then Inl (OtherException ''unable to find application'') else Inr 500),
      attach_result = (\<lambda>p. Inr (Session p)),
      resume_result = (\<lambda>p. None)\<rparr>"

definition deaf_device :: device where
  "deaf_device = foo_device\<lparr>attach_result := (\<lambda>p. Inl (OtherException ''unable to attach''))\<rparr>"

definition stuck_device :: device where
  "stuck_device = foo_device\<lparr>resume_result := (\<lambda>p. Some (OtherException ''unable to resume''))\<rparr>"

section \<open>Relative-path derivation\<close>

lemma find_from_miss:
  "\<not> sublist sub s \<Longrightarrow> find_from sub s i = - 1"
proof (induction s arbitrary: i)
  case Nil
  then show ?case by auto
next
  case (Cons c cs)
  from Cons.prems have np: "\<not> prefix sub (c # cs)" and ns: "\<not> sublist sub cs"
    by (auto simp: sublist_Cons_right)
  from Cons.IH [OF ns] np show ?case by simp
qed

lemma find_from_hit:
  "sublist sub s \<Longrightarrow>
     \<exists>j. find_from sub s i = int (i + j) \<and> j \<le> length s \<and> prefix sub (drop j s)"
proof (induction s arbitrary: i)
  case Nil
  then show ?case by auto
next
  case (Cons c cs)
  show ?case
  proof (cases "prefix sub (c # cs)")
    case True
    then have "find_from sub (c # cs) i = int (i + 0) \<and> 0 \<le> length (c # cs)
        \<and> prefix sub (drop 0 (c # cs))"
      by simp
    then show ?thesis by blast
  next
    case False
    with Cons.prems have "sublist sub cs"
      by (simp add: sublist_Cons_right)
    from Cons.IH [OF this, of "Suc i"] obtain j where
      j: "find_from sub cs (Suc i) = int (Suc i + j)" "j \<le> length cs" "prefix sub (drop j cs)"
      by blast
    with False have "find_from sub (c # cs) i = int (i + Suc j) \<and> Suc j \<le> length (c # cs)
        \<and> prefix sub (drop (Suc j) (c # cs))"
      by simp
    then show ?thesis by blast
  qed
qed

lemma occurrences_mem:
  "i \<in> set (occurrences sub s) \<longleftrightarrow> i \<le> length s \<and> prefix sub (drop i s)"
  by (auto simp: occurrences_def simp del: upt_Suc)

lemma occurrences_single:
  assumes "length (occurrences sub s) = 1"
    and "i \<in> set (occurrences sub s)" and "j \<in> set (occurrences sub s)"
  shows "i = j"
proof -
  from assms(1) obtain z where "occurrences sub s = [z]"
    by (cases "occurrences sub s") auto
  with assms(2,3) show ?thesis by simp
qed

text \<open>
  C4. A path with exactly one occurrence of \<open>.app/\<close> is mapped by \<open>extract_path\<close> to
  exactly what follows that occurrence.
\<close>

theorem extract_path_single_marker:
  assumes "length (occurrences ''.app/'' p) = 1" and "p = a @ ''.app/'' @ b"
  shows "extract_path p = b"
proof -
  from assms(2) have sub: "sublist ''.app/'' p"
    by (auto simp: sublist_def)
  from find_from_hit [OF sub, of 0] obtain j where
    j: "find_from ''.app/'' p 0 = int j" "j \<le> length p" "prefix ''.app/'' (drop j p)"
    by auto
  from j(2,3) have "j \<in> set (occurrences ''.app/'' p)"
    by (simp add: occurrences_mem)
  moreover from assms(2) have "length a \<in> set (occurrences ''.app/'' p)"
    by (simp add: occurrences_mem)
  ultimately have "j = length a"
    using occurrences_single [OF assms(1)] by blast
  with j(1) have "str_find p ''.app/'' = int (length a)"
    by (simp add: str_find_def)
  then have "extract_path p = drop (length a + 5) p"
    by (simp add: extract_path_def slice_from_def nat_add_distrib)
  with assms(2) show ?thesis by simp
qed

theorem extract_path_single_marker_witness:
  "length (occurrences ''.app/'' ''/var/Foo.app/Info.plist'') = 1
   \<and> ''/var/Foo.app/Info.plist'' = ''/var/Foo'' @ ''.app/'' @ ''Info.plist''
   \<and> extract_path ''/var/Foo.app/Info.plist'' = ''Info.plist''"
proof -
  have h1: "length (occurrences ''.app/'' ''/var/Foo.app/Info.plist'') = 1"
    by code_simp
  have h2: "''/var/Foo.app/Info.plist'' = ''/var/Foo'' @ ''.app/'' @ ''Info.plist''"
    by simp
  from extract_path_single_marker [OF h1 h2] h1 h2 show ?thesis by blast
qed

text \<open>
  C9. On a path in which \<open>.app/\<close> does not occur, the search gives \<open>-1\<close> and
  \<open>extract_path\<close> returns the path without its first four characters. The function has
  no failing branch: it is total on strings.
\<close>

theorem extract_path_no_marker:
  assumes "\<not> sublist ''.app/'' p"
  shows "str_find p ''.app/'' = - 1 \<and> extract_path p = drop 4 p"
proof -
  from find_from_miss [OF assms] have f: "str_find p ''.app/'' = - 1"
    by (simp add: str_find_def)
  then have "extract_path p = drop 4 p"
    by (simp add: extract_path_def slice_from_def)
  with f show ?thesis by simp
qed

theorem extract_path_no_marker_witness:
  "\<not> sublist ''.app/'' ''/var/tmp/Foo.plist''
   \<and> str_find ''/var/tmp/Foo.plist'' ''.app/'' = - 1
   \<and> extract_path ''/var/tmp/Foo.plist'' = ''/tmp/Foo.plist''"
proof -
  have h: "\<not> sublist ''.app/'' ''/var/tmp/Foo.plist''"
    by code_simp
  from extract_path_no_marker [OF h] h show ?thesis by simp
qed

section \<open>How each function leaves the state\<close>

lemma print_simps:
  "FILE_DICT (print x s) = FILE_DICT s" "FINISHED (print x s) = FINISHED s"
  "actions (print x s) = actions s" "stdout (print x s) = stdout s @ [x]"
  "bars (print x s) = bars s"
  by (simp_all add: print_def)

lemma perform_simps:
  "FILE_DICT (perform a s) = FILE_DICT s" "FINISHED (perform a s) = FINISHED s"
  "actions (perform a s) = actions s @ [a]" "stdout (perform a s) = stdout s"
  "bars (perform a s) = bars s"
  by (simp_all add: perform_def)

lemma FINISHED_set_simps:
  "FILE_DICT (FINISHED_set s) = FILE_DICT s" "FINISHED (FINISHED_set s) = True"
  "actions (FINISHED_set s) = actions s" "stdout (FINISHED_set s) = stdout s"
  "bars (FINISHED_set s) = bars s"
  by (simp_all add: FINISHED_set_def)

lemma report_progress_simps:
  "FILE_DICT (report_progress rs s) = FILE_DICT s" "FINISHED (report_progress rs s) = FINISHED s"
  "actions (report_progress rs s) = actions s" "stdout (report_progress rs s) = stdout s"
  "bars (report_progress rs s) =
     bars s @ map (\<lambda>(filename, size', sent). progress_bar filename size' sent) rs"
  by (simp_all add: report_progress_def)

lemma scp_transfer_except_simps:
  "FILE_DICT (scp_transfer_except e s) = FILE_DICT s"
  "FINISHED (scp_transfer_except e s) = FINISHED s"
  "actions (scp_transfer_except e s) = actions s"
  "bars (scp_transfer_except e s) = bars s"
  by (simp_all add: scp_transfer_except_def print_simps split: exn.splits)

lemma scp_transfer_FILE_DICT: "FILE_DICT (scp_transfer w src dest r s) = FILE_DICT s"
  by (simp add: scp_transfer_def Let_def scp_transfer_except_simps print_simps perform_simps
      report_progress_simps split: option.splits)

lemma scp_transfer_FINISHED: "FINISHED (scp_transfer w src dest r s) = FINISHED s"
  by (simp add: scp_transfer_def Let_def scp_transfer_except_simps print_simps perform_simps
      report_progress_simps split: option.splits)


lemma moves_append: "moves (xs @ ys) = moves xs @ moves ys"
  by (induction xs rule: moves.induct) simp_all

lemma scp_transfer_moves: "moves (actions (scp_transfer w src dest r s)) = moves (actions s)"
  by (simp add: scp_transfer_def Let_def scp_transfer_except_simps print_simps perform_simps
      report_progress_simps moves_append split: option.splits)

lemma scp_transfer_raised:
  "scp_get_result w src dest r = Some e \<Longrightarrow>
     stdout (scp_transfer w src dest r s) =
       stdout s @ [Transferring src dest,
         (case e of CalledProcessError x \<Rightarrow> ErrorSettingPermissions e | _ \<Rightarrow> ErrorDuringTransfer e)]"
  by (simp add: scp_transfer_def Let_def scp_transfer_except_def print_simps perform_simps
      report_progress_simps split: exn.splits)

lemma on_dump_FINISHED: "FINISHED (snd (on_dump w pl s)) = FINISHED s"
  by (simp add: on_dump_def Let_def scp_transfer_FINISHED split: option.splits)

lemma on_app_FINISHED: "FINISHED (on_app w pl s) = FINISHED s"
  by (simp add: on_app_def Let_def scp_transfer_FINISHED split: option.splits)

lemma on_done_FINISHED: "FINISHED s \<Longrightarrow> FINISHED (on_done pl s)"
  by (simp add: on_done_def FINISHED_set_simps)

lemma on_message_FINISHED:
  assumes fin: "FINISHED s"
  shows "FINISHED (snd (on_message w m s))"
proof (cases m)
  case None
  with fin show ?thesis by (simp add: on_message_def)
next
  case (Some pl)
  obtain r s1 where d: "on_dump w pl s = (r, s1)" by (cases "on_dump w pl s")
  with fin on_dump_FINISHED [of w pl s] have f1: "FINISHED s1" by simp
  show ?thesis
  proof (cases r)
    case None
    with Some d f1 show ?thesis
      by (simp add: on_message_def on_done_FINISHED on_app_FINISHED)
  next
    case (Some e)
    with \<open>m = Some pl\<close> d f1 show ?thesis by (simp add: on_message_def)
  qed
qed

lemma move_all_FINISHED: "FINISHED (snd (move_all w path a items s)) = FINISHED s"
  by (induction w path a items s rule: move_all.induct)
     (simp_all add: Let_def perform_simps split: option.splits)

lemma generate_ipa_except_FINISHED: "FINISHED (generate_ipa_except e s)"
  by (simp add: generate_ipa_except_def FINISHED_set_simps)

lemma generate_ipa_FINISHED: "FINISHED s \<Longrightarrow> FINISHED (generate_ipa w path dn s)"
proof -
  assume fin: "FINISHED s"
  let ?s1 = "print (Generating (dn @ ''.ipa'')) s"
  show ?thesis
  proof (cases "map_of (FILE_DICT ?s1) ''app''")
    case None
    then show ?thesis
      by (simp add: generate_ipa_def Let_def generate_ipa_except_FINISHED)
  next
    case (Some a)
    obtain r s2 where m: "move_all w path a (FILE_DICT ?s1) ?s1 = (r, s2)"
      by (cases "move_all w path a (FILE_DICT ?s1) ?s1")
    with fin move_all_FINISHED [of w path a "FILE_DICT ?s1" ?s1] have f2: "FINISHED s2"
      by (simp add: print_simps)
    with Some m show ?thesis
      by (simp add: generate_ipa_def Let_def generate_ipa_except_FINISHED perform_simps
          split: option.splits)
  qed
qed

lemma spawn_attach_resume_FINISHED:
  "FINISHED (snd (spawn_attach_resume dev b s)) = FINISHED s"
  by (simp add: spawn_attach_resume_def Let_def print_simps perform_simps
      split: sum.splits option.splits)

lemma attach_running_FINISHED: "FINISHED (snd (attach_running dev p s)) = FINISHED s"
  by (simp add: attach_running_def Let_def print_simps perform_simps split: sum.splits)

lemma open_target_app_selected:
  assumes "enumerate_applications_result dev = Inr apps"
    and "select_app app_id apps (EmptyStr, [], []) = (pidv, dn, bid)"
  shows "open_target_app dev app_id s =
     (Inr (fst (case pidv of
                  EmptyStr \<Rightarrow> spawn_attach_resume dev bid (print (StartingApp app_id) s)
                | Pid p \<Rightarrow>
                    if p = 0 then spawn_attach_resume dev bid (print (StartingApp app_id) s)
                    else attach_running dev p (print (StartingApp app_id) s)), dn, bid),
      snd (case pidv of
             EmptyStr \<Rightarrow> spawn_attach_resume dev bid (print (StartingApp app_id) s)
           | Pid p \<Rightarrow>
               if p = 0 then spawn_attach_resume dev bid (print (StartingApp app_id) s)
               else attach_running dev p (print (StartingApp app_id) s)))"
  using assms
  by (simp add: open_target_app_def get_applications_def Let_def split: prod.splits)

lemma open_target_app_FINISHED: "FINISHED (snd (open_target_app dev app_id s)) = FINISHED s"
proof (cases "enumerate_applications_result dev")
  case (Inl e)
  then show ?thesis
    by (simp add: open_target_app_def get_applications_def Let_def print_simps)
next
  case (Inr apps)
  obtain pidv dn bid where sel: "select_app app_id apps (EmptyStr, [], []) = (pidv, dn, bid)"
    by (cases "select_app app_id apps (EmptyStr, [], [])") auto
  show ?thesis
    unfolding open_target_app_selected [OF Inr sel]
    by (cases pidv)
       (simp_all add: spawn_attach_resume_FINISHED attach_running_FINISHED print_simps)
qed

lemma step_FINISHED: "FINISHED s \<Longrightarrow> FINISHED (step w x s)"
  by (cases x)
     (simp_all add: on_message_FINISHED scp_transfer_FINISHED generate_ipa_FINISHED
        open_target_app_FINISHED FINISHED_set_simps)

lemma run_FINISHED: "FINISHED s \<Longrightarrow> FINISHED (run w xs s)"
  by (induction xs arbitrary: s) (simp_all add: step_FINISHED)

lemma run_append: "run w (xs @ ys) s = run w ys (run w xs s)"
  by (induction xs arbitrary: s) simp_all

section \<open>Failed pulls\<close>

lemma on_dump_binary:
  assumes "pl ''dump'' = Some d" and "pl ''path'' = Some p"
  shows "on_dump w pl s =
     (None, (scp_transfer w d (PAYLOAD_PATH w) False s)
        \<lparr>FILE_DICT := AList.update (basename d) (extract_path p) (FILE_DICT s)\<rparr>)"
  using assms by (simp add: on_dump_def Let_def scp_transfer_FILE_DICT)

lemma on_message_binary:
  assumes "pl ''dump'' = Some d" and "pl ''path'' = Some p" and "pl ''app'' = None"
  shows "on_message w (Some pl) s =
     (None, on_done pl ((scp_transfer w d (PAYLOAD_PATH w) False s)
        \<lparr>FILE_DICT := AList.update (basename d) (extract_path p) (FILE_DICT s)\<rparr>))"
  using assms by (simp add: on_message_def on_dump_binary on_app_def)

lemma on_done_simps:
  "FILE_DICT (on_done pl s) = FILE_DICT s" "stdout (on_done pl s) = stdout s"
  "actions (on_done pl s) = actions s"
  by (simp_all add: on_done_def FINISHED_set_simps)

text \<open>
  C1, as the code has it. When the pull of a \<open>dump\<close> notification raises, \<open>scp_transfer\<close>
  catches the exception and prints it, \<open>on_message\<close> returns normally, and the entry
  \<open>basename(dump) -> extract_path(path)\<close> is stored in \<open>FILE_DICT\<close> all the same:
  the store does not depend on the outcome of the pull. The notifications that follow
  are handled from the resulting state.
\<close>

theorem failed_pull_still_registered:
  assumes "pl ''dump'' = Some d" and "pl ''path'' = Some p" and "pl ''app'' = None"
    and "scp_get_result w d (PAYLOAD_PATH w) False = Some e"
  shows "fst (on_message w (Some pl) s) = None
    \<and> stdout (snd (on_message w (Some pl) s)) =
        stdout s @ [Transferring d (PAYLOAD_PATH w),
          (case e of CalledProcessError x \<Rightarrow> ErrorSettingPermissions e
           | _ \<Rightarrow> ErrorDuringTransfer e)]
    \<and> map_of (FILE_DICT (snd (on_message w (Some pl) s))) (basename d) = Some (extract_path p)
    \<and> deliver w (Some pl # ms) s = deliver w ms (snd (on_message w (Some pl) s))"
proof -
  note m = on_message_binary [OF assms(1-3), of w s]
  have 1: "fst (on_message w (Some pl) s) = None"
    by (simp add: m)
  have 2: "stdout (snd (on_message w (Some pl) s)) =
        stdout s @ [Transferring d (PAYLOAD_PATH w),
          (case e of CalledProcessError x \<Rightarrow> ErrorSettingPermissions e
           | _ \<Rightarrow> ErrorDuringTransfer e)]"
    by (simp add: m on_done_simps scp_transfer_raised [OF assms(4)])
  have 3: "map_of (FILE_DICT (snd (on_message w (Some pl) s))) (basename d)
      = Some (extract_path p)"
    by (simp add: m on_done_simps update_conv')
  have 4: "deliver w (Some pl # ms) s = deliver w ms (snd (on_message w (Some pl) s))"
    by (simp add: m)
  from 1 2 3 4 show ?thesis by blast
qed

lemma basename_Foo_fid: "basename ''/tmp/Foo.fid'' = ''Foo.fid''"
  by (simp add: basename_def)

lemma extract_Foo: "extract_path ''/var/Bundle/Foo.app/Foo'' = ''Foo''"
  by (simp add: extract_path_def str_find_def slice_from_def)


lemma timeout_world_pull:
  "scp_get_result timeout_world src dest r = Some (OtherException ''timed out'')"
  by (simp add: timeout_world_def)

text \<open>
  C1 as stated fails: the pull of \<open>/tmp/Foo.fid\<close> times out, and \<open>FILE_DICT\<close> holds an
  entry for \<open>Foo.fid\<close> afterwards.
\<close>

theorem failed_pull_counterexample:
  "scp_get_result timeout_world ''/tmp/Foo.fid'' (PAYLOAD_PATH timeout_world) False
     = Some (OtherException ''timed out'')
   \<and> fst (on_message timeout_world
        (Some [''dump'' \<mapsto> ''/tmp/Foo.fid'', ''path'' \<mapsto> ''/var/Bundle/Foo.app/Foo''])
        initial_state) = None
   \<and> FILE_DICT (snd (on_message timeout_world
        (Some [''dump'' \<mapsto> ''/tmp/Foo.fid'', ''path'' \<mapsto> ''/var/Bundle/Foo.app/Foo''])
        initial_state)) = [(''Foo.fid'', ''Foo'')]"
proof -
  let ?pl = "[''dump'' \<mapsto> ''/tmp/Foo.fid'', ''path'' \<mapsto> ''/var/Bundle/Foo.app/Foo'']"
  have d: "?pl ''dump'' = Some ''/tmp/Foo.fid''" by simp
  have p: "?pl ''path'' = Some ''/var/Bundle/Foo.app/Foo''" by simp
  have a: "?pl ''app'' = None" by simp
  note m = on_message_binary [OF d p a, of timeout_world initial_state]
  have 1: "fst (on_message timeout_world (Some ?pl) initial_state) = None"
    by (simp only: m fst_conv)
  have i: "FILE_DICT initial_state = []" by (simp add: initial_state_def)
  have 2: "FILE_DICT (snd (on_message timeout_world (Some ?pl) initial_state))
      = [(''Foo.fid'', ''Foo'')]"
    by (simp only: m snd_conv on_done_simps) (simp add: i basename_Foo_fid extract_Foo)
  from timeout_world_pull 1 2 show ?thesis by blast
qed

theorem failed_pull_still_registered_witness:
  "fst (on_message timeout_world
        (Some [''dump'' \<mapsto> ''/tmp/Foo.fid'', ''path'' \<mapsto> ''/var/Bundle/Foo.app/Foo''])
        initial_state) = None
   \<and> stdout (snd (on_message timeout_world
        (Some [''dump'' \<mapsto> ''/tmp/Foo.fid'', ''path'' \<mapsto> ''/var/Bundle/Foo.app/Foo''])
        initial_state)) =
       [Transferring ''/tmp/Foo.fid'' ''/tmp/Payload'',
        ErrorDuringTransfer (OtherException ''timed out'')]
   \<and> map_of (FILE_DICT (snd (on_message timeout_world
        (Some [''dump'' \<mapsto> ''/tmp/Foo.fid'', ''path'' \<mapsto> ''/var/Bundle/Foo.app/Foo''])
        initial_state))) ''Foo.fid'' = Some ''Foo''"
proof -
  let ?pl = "[''dump'' \<mapsto> ''/tmp/Foo.fid'', ''path'' \<mapsto> ''/var/Bundle/Foo.app/Foo'']"
  have d: "?pl ''dump'' = Some ''/tmp/Foo.fid''" by simp
  have p: "?pl ''path'' = Some ''/var/Bundle/Foo.app/Foo''" by simp
  have a: "?pl ''app'' = None" by simp
  have P: "PAYLOAD_PATH timeout_world = ''/tmp/Payload''"
    by (simp add: PAYLOAD_PATH_def PAYLOAD_DIR_def join2_def timeout_world_def calm_world_def)
  have i: "stdout initial_state = []" by (simp add: initial_state_def)
  note t = failed_pull_still_registered [OF d p a timeout_world_pull, of initial_state "[]",
      unfolded P i basename_Foo_fid extract_Foo exn.case append_Nil]
  from t show ?thesis by blast
qed

section \<open>The Foo scenario\<close>

lemma foo_names:
  "basename ''/var/.../Foo.app'' = ''Foo.app''"
  "basename ''/var/.../Foo.plist'' = ''Foo.plist''"
  "extract_path ''/var/.../Foo.app/Foo.plist'' = ''Foo.plist''"
  "extract_path ''/var/.../Foo.plist'' = ''/.../Foo.plist''"
  by (simp_all add: basename_def extract_path_def str_find_def slice_from_def)

lemma on_message_bundle:
  assumes "pl ''dump'' = None" and "pl ''app'' = Some a"
  shows "on_message w (Some pl) s =
     (None, on_done pl ((scp_transfer w a (PAYLOAD_PATH w) True s)
        \<lparr>FILE_DICT := AList.update ''app'' (basename a) (FILE_DICT s)\<rparr>))"
  using assms by (simp add: on_message_def on_dump_def on_app_def Let_def scp_transfer_FILE_DICT)

lemma on_message_completed:
  assumes "pl ''dump'' = None" and "pl ''app'' = None"
  shows "on_message w (Some pl) s = (None, on_done pl s)"
  using assms by (simp add: on_message_def on_dump_def on_app_def)

lemma bundle_binary_completed:
  "deliver w
     [foo_bundle, Some [''dump'' \<mapsto> ''/var/.../Foo.plist'', ''path'' \<mapsto> p], completed]
     initial_state =
     (None, FINISHED_set
        ((scp_transfer w ''/var/.../Foo.plist'' (PAYLOAD_PATH w) False
            ((scp_transfer w ''/var/.../Foo.app'' (PAYLOAD_PATH w) True initial_state)
               \<lparr>FILE_DICT := [(''app'', ''Foo.app'')]\<rparr>))
           \<lparr>FILE_DICT := [(''app'', ''Foo.app''), (''Foo.plist'', extract_path p)]\<rparr>))"
proof -
  let ?s1 = "(scp_transfer w ''/var/.../Foo.app'' (PAYLOAD_PATH w) True initial_state)
               \<lparr>FILE_DICT := [(''app'', ''Foo.app'')]\<rparr>"
  let ?s2 = "(scp_transfer w ''/var/.../Foo.plist'' (PAYLOAD_PATH w) False ?s1)
           \<lparr>FILE_DICT := [(''app'', ''Foo.app''), (''Foo.plist'', extract_path p)]\<rparr>"
  have 1: "on_message w foo_bundle initial_state = (None, ?s1)"
    unfolding foo_bundle_def
    by (subst on_message_bundle [where a = "''/var/.../Foo.app''"])
       (simp_all add: on_done_def foo_names initial_state_def)
  have 2: "on_message w (Some [''dump'' \<mapsto> ''/var/.../Foo.plist'', ''path'' \<mapsto> p]) ?s1
      = (None, ?s2)"
    by (subst on_message_binary [where d = "''/var/.../Foo.plist''" and p = p])
       (simp_all add: on_done_def foo_names)
  have 3: "on_message w completed ?s2 = (None, FINISHED_set ?s2)"
    unfolding completed_def
    by (subst on_message_completed) (simp_all add: on_done_def)
  show ?thesis
    by (simp only: deliver.simps 1 2 3 prod.case option.case)
qed

lemma foo_deliver:
  "deliver w [foo_bundle, foo_plist, completed] initial_state =
     (None, FINISHED_set
        ((scp_transfer w ''/var/.../Foo.plist'' (PAYLOAD_PATH w) False
            ((scp_transfer w ''/var/.../Foo.app'' (PAYLOAD_PATH w) True initial_state)
               \<lparr>FILE_DICT := [(''app'', ''Foo.app'')]\<rparr>))
           \<lparr>FILE_DICT := [(''app'', ''Foo.app''), (''Foo.plist'', ''Foo.plist'')]\<rparr>))"
  unfolding foo_plist_def bundle_binary_completed by (simp only: foo_names)

lemma foo_deliver_bare:
  "deliver w [foo_bundle, foo_plist_bare, completed] initial_state =
     (None, FINISHED_set
        ((scp_transfer w ''/var/.../Foo.plist'' (PAYLOAD_PATH w) False
            ((scp_transfer w ''/var/.../Foo.app'' (PAYLOAD_PATH w) True initial_state)
               \<lparr>FILE_DICT := [(''app'', ''Foo.app'')]\<rparr>))
           \<lparr>FILE_DICT := [(''app'', ''Foo.app''), (''Foo.plist'', ''/.../Foo.plist'')]\<rparr>))"
  unfolding foo_plist_bare_def bundle_binary_completed by (simp only: foo_names)

lemma generate_ipa_except_simps:
  "FILE_DICT (generate_ipa_except e s) = FILE_DICT s"
  "actions (generate_ipa_except e s) = actions s"
  "stdout (generate_ipa_except e s) = stdout s @ [ErrorGeneratingIpa e]"
  by (simp_all add: generate_ipa_except_def FINISHED_set_simps print_simps)

lemma generate_ipa_foo_moves:
  assumes "FILE_DICT s = [(''app'', ''Foo.app''), (''Foo.plist'', ''Foo.plist'')]"
  shows "moves (actions (generate_ipa w path dn s)) =
     moves (actions s) @ [(join2 path ''Foo.plist'', join3 path ''Foo.app'' ''Foo.plist'')]"
  using assms
  by (simp add: generate_ipa_def Let_def print_simps perform_simps generate_ipa_except_simps
      moves_append split: option.splits)

lemma generate_ipa_foo_moved:
  assumes "FILE_DICT s = [(''app'', ''Foo.app''), (''Foo.plist'', ''Foo.plist'')]"
    and "move_result w (join2 path ''Foo.plist'') (join3 path ''Foo.app'' ''Foo.plist'') = None"
  shows "take 2 (drop (length (actions s)) (actions (generate_ipa w path dn s))) =
     [Move (join2 path ''Foo.plist'') (join3 path ''Foo.app'' ''Foo.plist''),
      Zip (join2 (getcwd w) (dn @ ''.ipa'')) PAYLOAD_DIR (TEMP_DIR w)]"
  using assms
  by (simp add: generate_ipa_def Let_def print_simps perform_simps generate_ipa_except_simps
      split: option.splits)

lemma foo_deliver_moves:
  "moves (actions (snd (deliver w [foo_bundle, foo_plist, completed] initial_state))) = []"
  unfolding foo_deliver
  by (simp add: FINISHED_set_simps scp_transfer_moves initial_state_def)

text \<open>
  C2, as the code has it. After the bundle notification, the notification of
  \<open>Foo.plist\<close> and the final \<open>done\<close>, with both pulls succeeding, \<open>FILE_DICT\<close> is
  \<open>{"app": "Foo.app", "Foo.plist": "Foo.plist"}\<close>: the bundle is stored under the key
  \<open>app\<close>, with its base name as the value. \<open>generate_ipa\<close> then moves \<open>Foo.plist\<close> to
  \<open>Foo.app/Foo.plist\<close> under the staging directory: it is its only move, and the file
  system carrying it out (the outcome of \<open>shutil.move\<close> is the world's), the next thing
  it does is the zip.
\<close>

theorem foo_scenario:
  assumes "scp_get_result w ''/var/.../Foo.app'' (PAYLOAD_PATH w) True = None"
    and "scp_get_result w ''/var/.../Foo.plist'' (PAYLOAD_PATH w) False = None"
    and "move_result w (join2 (PAYLOAD_PATH w) ''Foo.plist'')
           (join3 (PAYLOAD_PATH w) ''Foo.app'' ''Foo.plist'') = None"
  shows "fst (deliver w [foo_bundle, foo_plist, completed] initial_state) = None
   \<and> FILE_DICT (snd (deliver w [foo_bundle, foo_plist, completed] initial_state)) =
       [(''app'', ''Foo.app''), (''Foo.plist'', ''Foo.plist'')]
   \<and> FINISHED (snd (deliver w [foo_bundle, foo_plist, completed] initial_state))
   \<and> moves (actions (generate_ipa w (PAYLOAD_PATH w) display_name
         (snd (deliver w [foo_bundle, foo_plist, completed] initial_state)))) =
       [(join2 (PAYLOAD_PATH w) ''Foo.plist'', join3 (PAYLOAD_PATH w) ''Foo.app'' ''Foo.plist'')]
   \<and> take 2 (drop
         (length (actions (snd (deliver w [foo_bundle, foo_plist, completed] initial_state))))
         (actions (generate_ipa w (PAYLOAD_PATH w) display_name
            (snd (deliver w [foo_bundle, foo_plist, completed] initial_state))))) =
       [Move (join2 (PAYLOAD_PATH w) ''Foo.plist'')
          (join3 (PAYLOAD_PATH w) ''Foo.app'' ''Foo.plist''),
        Zip (join2 (getcwd w) (display_name @ ''.ipa'')) PAYLOAD_DIR (TEMP_DIR w)]"
proof -
  let ?r = "deliver w [foo_bundle, foo_plist, completed] initial_state"
  have 1: "fst ?r = None"
    unfolding foo_deliver by simp
  have 2: "FILE_DICT (snd ?r) = [(''app'', ''Foo.app''), (''Foo.plist'', ''Foo.plist'')]"
    unfolding foo_deliver by (simp add: FINISHED_set_simps)
  have 3: "FINISHED (snd ?r)"
    unfolding foo_deliver by (simp add: FINISHED_set_simps)
  have 4: "moves (actions (generate_ipa w (PAYLOAD_PATH w) display_name (snd ?r))) =
       [(join2 (PAYLOAD_PATH w) ''Foo.plist'', join3 (PAYLOAD_PATH w) ''Foo.app'' ''Foo.plist'')]"
    by (simp only: generate_ipa_foo_moves [OF 2] foo_deliver_moves append_Nil)
  note 5 = generate_ipa_foo_moved [OF 2 assms(3), of display_name]
  from 1 2 3 4 5 show ?thesis by blast
qed

lemma calm_PAYLOAD_PATH: "PAYLOAD_PATH calm_world = ''/tmp/Payload''"
  by (simp add: PAYLOAD_PATH_def PAYLOAD_DIR_def join2_def calm_world_def)

lemma calm_joins:
  "join2 ''/tmp/Payload'' ''Foo.plist'' = ''/tmp/Payload/Foo.plist''"
  "join3 ''/tmp/Payload'' ''Foo.app'' ''Foo.plist'' = ''/tmp/Payload/Foo.app/Foo.plist''"
  by (simp_all add: join3_def join2_def)

lemma calm_world_answers:
  "scp_get_result calm_world src dest r = None"
  "move_result calm_world a b = None"
  by (simp_all add: calm_world_def)

theorem foo_scenario_witness:
  "scp_get_result calm_world ''/var/.../Foo.app'' (PAYLOAD_PATH calm_world) True = None
   \<and> scp_get_result calm_world ''/var/.../Foo.plist'' (PAYLOAD_PATH calm_world) False = None
   \<and> move_result calm_world ''/tmp/Payload/Foo.plist'' ''/tmp/Payload/Foo.app/Foo.plist'' = None
   \<and> FILE_DICT (snd (deliver calm_world [foo_bundle, foo_plist, completed] initial_state)) =
       [(''app'', ''Foo.app''), (''Foo.plist'', ''Foo.plist'')]
   \<and> moves (actions (generate_ipa calm_world ''/tmp/Payload'' ''Foo''
         (snd (deliver calm_world [foo_bundle, foo_plist, completed] initial_state)))) =
       [(''/tmp/Payload/Foo.plist'', ''/tmp/Payload/Foo.app/Foo.plist'')]"
proof -
  note t = foo_scenario [OF calm_world_answers(1) calm_world_answers(1) calm_world_answers(2),
      where display_name = "''Foo''", unfolded calm_PAYLOAD_PATH calm_joins]
  from calm_world_answers t show ?thesis by blast
qed

lemma foo_table_differs:
  assumes "fd = [(''app'', ''Foo.app''), (''Foo.plist'', v)]"
  shows "map_of fd \<noteq> [''Foo.app'' \<mapsto> ''app'', ''Foo.plist'' \<mapsto> ''Foo.plist'']"
proof
  assume eq: "map_of fd = [''Foo.app'' \<mapsto> ''app'', ''Foo.plist'' \<mapsto> ''Foo.plist'']"
  from assms have "map_of fd ''app'' = Some ''Foo.app''"
    by simp
  moreover have "[''Foo.app'' \<mapsto> ''app'', ''Foo.plist'' \<mapsto> ''Foo.plist''] ''app'' = None"
    by simp
  ultimately show False
    using eq by simp
qed

text \<open>
  C2 as stated fails: with every pull succeeding, the table is not
  \<open>{"Foo.app": "app", "Foo.plist": "Foo.plist"}\<close>, whether the notification of
  \<open>Foo.plist\<close> gives its origin inside the bundle or only the bare path.
\<close>

theorem foo_scenario_counterexample:
  "map_of (FILE_DICT (snd (deliver calm_world [foo_bundle, foo_plist, completed] initial_state)))
     \<noteq> [''Foo.app'' \<mapsto> ''app'', ''Foo.plist'' \<mapsto> ''Foo.plist'']
   \<and> map_of (FILE_DICT (snd (deliver calm_world [foo_bundle, foo_plist_bare, completed]
        initial_state)))
     \<noteq> [''Foo.app'' \<mapsto> ''app'', ''Foo.plist'' \<mapsto> ''Foo.plist'']"
proof -
  have 1: "FILE_DICT (snd (deliver calm_world [foo_bundle, foo_plist, completed] initial_state))
      = [(''app'', ''Foo.app''), (''Foo.plist'', ''Foo.plist'')]"
    unfolding foo_deliver by (simp add: FINISHED_set_simps)
  have 2: "FILE_DICT (snd (deliver calm_world [foo_bundle, foo_plist_bare, completed]
        initial_state))
      = [(''app'', ''Foo.app''), (''Foo.plist'', ''/.../Foo.plist'')]"
    unfolding foo_deliver_bare by (simp add: FINISHED_set_simps)
  from foo_table_differs [OF 1] foo_table_differs [OF 2] show ?thesis by blast
qed

section \<open>Assembly without the bundle entry\<close>

text \<open>
  C3. When \<open>FILE_DICT\<close> has no key \<open>app\<close> as \<open>generate_ipa\<close> runs, the lookup raises
  \<open>KeyError\<close>; the handler prints it and sets \<open>FINISHED\<close>. Nothing is moved, no archive
  is written and the staging directory is not removed: no action is performed at all.
\<close>

theorem generate_ipa_without_bundle:
  assumes "''app'' \<notin> fst ` set (FILE_DICT s)"
  shows "stdout (generate_ipa w path display_name s) =
       stdout s @ [Generating (display_name @ ''.ipa''), ErrorGeneratingIpa (KeyError ''app'')]
     \<and> FINISHED (generate_ipa w path display_name s)
     \<and> actions (generate_ipa w path display_name s) = actions s
     \<and> FILE_DICT (generate_ipa w path display_name s) = FILE_DICT s"
proof -
  from assms have "map_of (FILE_DICT s) ''app'' = None"
    by (simp add: map_of_eq_None_iff)
  then have "generate_ipa w path display_name s =
      generate_ipa_except (KeyError ''app'') (print (Generating (display_name @ ''.ipa'')) s)"
    by (simp add: generate_ipa_def Let_def print_simps)
  then show ?thesis
    by (simp add: generate_ipa_except_simps generate_ipa_except_FINISHED print_simps)
qed

theorem generate_ipa_without_bundle_witness:
  "''app'' \<notin> fst ` set (FILE_DICT (initial_state\<lparr>FILE_DICT := [(''Foo.fid'', ''Foo'')]\<rparr>))
   \<and> stdout (generate_ipa calm_world ''/tmp/Payload'' ''Foo''
        (initial_state\<lparr>FILE_DICT := [(''Foo.fid'', ''Foo'')]\<rparr>)) =
       [Generating ''Foo.ipa'', ErrorGeneratingIpa (KeyError ''app'')]
   \<and> FINISHED (generate_ipa calm_world ''/tmp/Payload'' ''Foo''
        (initial_state\<lparr>FILE_DICT := [(''Foo.fid'', ''Foo'')]\<rparr>))
   \<and> actions (generate_ipa calm_world ''/tmp/Payload'' ''Foo''
        (initial_state\<lparr>FILE_DICT := [(''Foo.fid'', ''Foo'')]\<rparr>)) = []"
proof -
  let ?s = "initial_state\<lparr>FILE_DICT := [(''Foo.fid'', ''Foo'')]\<rparr>"
  have h: "''app'' \<notin> fst ` set (FILE_DICT ?s)"
    by simp
  have i: "stdout ?s = []" "actions ?s = []"
    by (simp_all add: initial_state_def)
  have n: "''Foo'' @ ''.ipa'' = ''Foo.ipa''"
    by simp
  note t = generate_ipa_without_bundle [OF h, of calm_world "''/tmp/Payload''" "''Foo''",
      unfolded i n append_Nil]
  from h t show ?thesis by blast
qed

section \<open>Opening the target application\<close>

lemma select_app_filter:
  "select_app app_id apps sel =
     (case filter (\<lambda>a. app_id = app_identifier a \<or> app_id = app_name a) apps of
        [] \<Rightarrow> sel
      | m # ms \<Rightarrow> (Pid (app_pid (last (m # ms))), app_name (last (m # ms)),
          app_identifier (last (m # ms))))"
proof (induction apps arbitrary: sel)
  case Nil
  show ?case by simp
next
  case (Cons a rest)
  show ?case
    by (simp add: Cons.IH split: list.splits)
qed

lemma spawn_attach_resume_actions:
  "\<exists>later. actions (snd (spawn_attach_resume dev b s)) = actions s @ Spawn [b] # later"
  by (simp add: spawn_attach_resume_def Let_def print_simps perform_simps
      split: sum.splits option.splits)

lemma attach_running_actions:
  "actions (snd (attach_running dev p s)) = actions s @ [Attach p]"
  by (simp add: attach_running_def Let_def print_simps perform_simps split: sum.splits)

lemma first_new_action:
  "ys = xs @ a # later \<Longrightarrow> take 1 (drop (length xs) ys) = [a]"
  by simp

text \<open>
  C5. When two or more descriptors of the enumeration have the target as their bundle
  identifier or display name, the loop leaves the pid, display name and bundle identifier
  of the last of them, in enumeration order. \<open>open_target_app\<close> returns that display name
  and bundle identifier, and its first call to the device is an attach to that pid, or,
  when that pid is \<open>0\<close>, a spawn of that bundle identifier. The result is a function of
  the enumeration: a fixed order gives a fixed selection.
\<close>

theorem last_match_selected:
  assumes "enumerate_applications_result dev = Inr apps"
    and "filter (\<lambda>a. app_id = app_identifier a \<or> app_id = app_name a) apps = ms"
    and "2 \<le> length ms"
  shows "select_app app_id apps (EmptyStr, [], []) =
       (Pid (app_pid (last ms)), app_name (last ms), app_identifier (last ms))
     \<and> (\<exists>sess s'.
          open_target_app dev app_id s =
            (Inr (sess, app_name (last ms), app_identifier (last ms)), s')
          \<and> take 1 (drop (length (actions s)) (actions s')) =
              [if app_pid (last ms) = 0 then Spawn [app_identifier (last ms)]
               else Attach (app_pid (last ms))])"
proof -
  from assms(3) obtain m ms' where ms: "ms = m # ms'"
    by (cases ms) auto
  have sel: "select_app app_id apps (EmptyStr, [], []) =
       (Pid (app_pid (last ms)), app_name (last ms), app_identifier (last ms))"
    by (simp add: select_app_filter assms(2) ms)
  let ?s1 = "print (StartingApp app_id) s"
  note o = open_target_app_selected [OF assms(1) sel, of s]
  show ?thesis
  proof (cases "app_pid (last ms) = 0")
    case True
    from spawn_attach_resume_actions [of dev "app_identifier (last ms)" ?s1]
    obtain later where
      "actions (snd (spawn_attach_resume dev (app_identifier (last ms)) ?s1)) =
         actions s @ Spawn [app_identifier (last ms)] # later"
      by (auto simp: print_simps)
    from first_new_action [OF this] True o sel show ?thesis
      by simp
  next
    case False
    have "actions (snd (attach_running dev (app_pid (last ms)) ?s1)) =
         actions s @ Attach (app_pid (last ms)) # []"
      by (simp add: attach_running_actions print_simps)
    from first_new_action [OF this] False o sel show ?thesis
      by simp
  qed
qed

text \<open>
  C8, as the code has it. The handler of \<open>open_target_app\<close> guards \<open>spawn\<close>, \<open>attach\<close> and
  \<open>resume\<close> alike: whichever raises, the exception is printed and the function returns
  normally, with the display name and bundle identifier it had selected. The session it
  returns is whatever \<open>session\<close> held when the exception was raised: none when \<open>spawn\<close>
  or \<open>attach\<close> raised, the attached session when \<open>resume\<close> raised after them.
\<close>

theorem start_failure_is_caught:
  assumes "enumerate_applications_result dev = Inr apps"
    and "select_app app_id apps (EmptyStr, [], []) = (pidv, display_name, bundle_identifier)"
  shows "((pidv = EmptyStr \<or> pidv = Pid 0) \<and> spawn_result dev [bundle_identifier] = Inl e \<longrightarrow>
        open_target_app dev app_id s =
          (Inr (None, display_name, bundle_identifier),
           print (ErrorStartingApp e)
             (perform (Spawn [bundle_identifier]) (print (StartingApp app_id) s))))
     \<and> ((pidv = EmptyStr \<or> pidv = Pid 0) \<and> spawn_result dev [bundle_identifier] = Inr p
          \<and> attach_result dev p = Inl e \<longrightarrow>
        open_target_app dev app_id s =
          (Inr (None, display_name, bundle_identifier),
           print (ErrorStartingApp e)
             (perform (Attach p)
                (perform (Spawn [bundle_identifier]) (print (StartingApp app_id) s)))))
     \<and> (pidv = Pid p \<and> p \<noteq> 0 \<and> attach_result dev p = Inl e \<longrightarrow>
        open_target_app dev app_id s =
          (Inr (None, display_name, bundle_identifier),
           print (ErrorStartingApp e) (perform (Attach p) (print (StartingApp app_id) s))))
     \<and> ((pidv = EmptyStr \<or> pidv = Pid 0) \<and> spawn_result dev [bundle_identifier] = Inr p
          \<and> attach_result dev p = Inr sess \<and> resume_result dev p = Some e \<longrightarrow>
        open_target_app dev app_id s =
          (Inr (Some sess, display_name, bundle_identifier),
           print (ErrorStartingApp e)
             (perform (Resume p)
                (perform (Attach p)
                   (perform (Spawn [bundle_identifier]) (print (StartingApp app_id) s))))))
     \<and> (\<exists>session s'.
          open_target_app dev app_id s = (Inr (session, display_name, bundle_identifier), s'))"
proof -
  note o = open_target_app_selected [OF assms, of s]
  have 1: "(pidv = EmptyStr \<or> pidv = Pid 0) \<and> spawn_result dev [bundle_identifier] = Inl e \<longrightarrow>
        open_target_app dev app_id s =
          (Inr (None, display_name, bundle_identifier),
           print (ErrorStartingApp e)
             (perform (Spawn [bundle_identifier]) (print (StartingApp app_id) s)))"
    unfolding o by (auto simp: spawn_attach_resume_def Let_def)
  have 2: "(pidv = EmptyStr \<or> pidv = Pid 0) \<and> spawn_result dev [bundle_identifier] = Inr p
          \<and> attach_result dev p = Inl e \<longrightarrow>
        open_target_app dev app_id s =
          (Inr (None, display_name, bundle_identifier),
           print (ErrorStartingApp e)
             (perform (Attach p)
                (perform (Spawn [bundle_identifier]) (print (StartingApp app_id) s))))"
    unfolding o by (auto simp: spawn_attach_resume_def Let_def)
  have 3: "pidv = Pid p \<and> p \<noteq> 0 \<and> attach_result dev p = Inl e \<longrightarrow>
        open_target_app dev app_id s =
          (Inr (None, display_name, bundle_identifier),
           print (ErrorStartingApp e) (perform (Attach p) (print (StartingApp app_id) s)))"
    unfolding o by (auto simp: attach_running_def Let_def)
  have 4: "(pidv = EmptyStr \<or> pidv = Pid 0) \<and> spawn_result dev [bundle_identifier] = Inr p
          \<and> attach_result dev p = Inr sess \<and> resume_result dev p = Some e \<longrightarrow>
        open_target_app dev app_id s =
          (Inr (Some sess, display_name, bundle_identifier),
           print (ErrorStartingApp e)
             (perform (Resume p)
                (perform (Attach p)
                   (perform (Spawn [bundle_identifier]) (print (StartingApp app_id) s)))))"
    unfolding o by (auto simp: spawn_attach_resume_def Let_def)
  have 5: "\<exists>session s'.
          open_target_app dev app_id s = (Inr (session, display_name, bundle_identifier), s')"
    unfolding o by blast
  from 1 2 3 4 5 show ?thesis by blast
qed

text \<open>
  C10. When no descriptor matches the target, \<open>open_target_app\<close> spawns the empty bundle
  identifier; the device refusing it, the exception is printed and the result is no
  session, an empty display name and an empty bundle identifier. Nothing sets the unknown
  target apart from any other failure to start.
\<close>

theorem unknown_target_spawns_empty_identifier:
  assumes "enumerate_applications_result dev = Inr apps"
    and "filter (\<lambda>a. app_id = app_identifier a \<or> app_id = app_name a) apps = []"
    and "spawn_result dev [''''] = Inl e"
  shows "open_target_app dev app_id s =
     (Inr (None, '''', ''''),
      print (ErrorStartingApp e) (perform (Spawn ['''']) (print (StartingApp app_id) s)))"
proof -
  have sel: "select_app app_id apps (EmptyStr, [], []) = (EmptyStr, [], [])"
    by (simp add: select_app_filter assms(2))
  show ?thesis
    unfolding open_target_app_selected [OF assms(1) sel]
    by (simp add: spawn_attach_resume_def Let_def assms(3))
qed

lemma foo_device_enumerates:
  "enumerate_applications_result foo_device = Inr foo_apps"
  "enumerate_applications_result deaf_device = Inr foo_apps"
  by (simp_all add: foo_device_def deaf_device_def)

lemma foo_apps_named_Foo:
  "filter (\<lambda>a. ''Foo'' = app_identifier a \<or> ''Foo'' = app_name a) foo_apps =
     [\<lparr>app_pid = 41, app_name = ''Foo'', app_identifier = ''com.example.foo''\<rparr>,
      \<lparr>app_pid = 77, app_name = ''Foo'', app_identifier = ''com.example.foo.beta''\<rparr>]"
  by (simp add: foo_apps_def)

lemma foo_apps_named_Nothing:
  "filter (\<lambda>a. ''Nothing'' = app_identifier a \<or> ''Nothing'' = app_name a) foo_apps = []"
  by (simp add: foo_apps_def)

lemma foo_apps_selected:
  "select_app ''Nothing'' foo_apps (EmptyStr, [], []) = (EmptyStr, [], [])"
  "select_app ''Bar'' foo_apps (EmptyStr, [], []) = (Pid 0, ''Bar'', ''com.example.bar'')"
  "select_app ''Foo'' foo_apps (EmptyStr, [], []) = (Pid 77, ''Foo'', ''com.example.foo.beta'')"
  by (simp_all add: foo_apps_def)

lemma foo_device_answers:
  "spawn_result foo_device [''''] = Inl (OtherException ''unable to find application'')"
  "spawn_result deaf_device [''com.example.bar''] = Inr 500"
  "attach_result deaf_device p = Inl (OtherException ''unable to attach'')"
  by (simp_all add: foo_device_def deaf_device_def)

theorem last_match_selected_witness:
  "2 \<le> length (filter (\<lambda>a. ''Foo'' = app_identifier a \<or> ''Foo'' = app_name a) foo_apps)
   \<and> select_app ''Foo'' foo_apps (EmptyStr, [], []) = (Pid 77, ''Foo'', ''com.example.foo.beta'')
   \<and> (\<exists>sess s'.
        open_target_app foo_device ''Foo'' initial_state =
          (Inr (sess, ''Foo'', ''com.example.foo.beta''), s')
        \<and> take 1 (drop (length (actions initial_state)) (actions s')) = [Attach 77])"
proof -
  have l: "2 \<le> length [\<lparr>app_pid = 41, app_name = ''Foo'', app_identifier = ''com.example.foo''\<rparr>,
      \<lparr>app_pid = 77, app_name = ''Foo'', app_identifier = ''com.example.foo.beta''\<rparr>]"
    by simp
  from last_match_selected [OF foo_device_enumerates(1) foo_apps_named_Foo l, of initial_state]
  have "select_app ''Foo'' foo_apps (EmptyStr, [], []) = (Pid 77, ''Foo'', ''com.example.foo.beta'')
   \<and> (\<exists>sess s'.
        open_target_app foo_device ''Foo'' initial_state =
          (Inr (sess, ''Foo'', ''com.example.foo.beta''), s')
        \<and> take 1 (drop (length (actions initial_state)) (actions s')) = [Attach 77])"
    by simp
  moreover
  have "2 \<le> length (filter (\<lambda>a. ''Foo'' = app_identifier a \<or> ''Foo'' = app_name a) foo_apps)"
    by (simp only: foo_apps_named_Foo l)
  ultimately show ?thesis by blast
qed

lemma stuck_device_answers:
  "enumerate_applications_result stuck_device = Inr foo_apps"
  "spawn_result stuck_device [''com.example.bar''] = Inr 500"
  "attach_result stuck_device 500 = Inr (Session 500)"
  "resume_result stuck_device 500 = Some (OtherException ''unable to resume'')"
  by (simp_all add: foo_device_def stuck_device_def)

text \<open>
  C8 as stated fails: \<open>Bar\<close> is not running, its spawn and the attach succeed and the
  resume raises; the exception is printed and a session is returned.
\<close>

theorem resume_failure_counterexample:
  "resume_result stuck_device 500 = Some (OtherException ''unable to resume'')
   \<and> open_target_app stuck_device ''Bar'' initial_state =
     (Inr (Some (Session 500), ''Bar'', ''com.example.bar''),
      print (ErrorStartingApp (OtherException ''unable to resume''))
        (perform (Resume 500)
           (perform (Attach 500)
              (perform (Spawn [''com.example.bar'']) (print (StartingApp ''Bar'') initial_state)))))"
proof -
  have "open_target_app stuck_device ''Bar'' initial_state =
     (Inr (Some (Session 500), ''Bar'', ''com.example.bar''),
      print (ErrorStartingApp (OtherException ''unable to resume''))
        (perform (Resume 500)
           (perform (Attach 500)
              (perform (Spawn [''com.example.bar'']) (print (StartingApp ''Bar'') initial_state)))))"
    unfolding open_target_app_selected [OF stuck_device_answers(1) foo_apps_selected(2)]
    by (simp add: spawn_attach_resume_def Let_def stuck_device_answers)
  with stuck_device_answers(4) show ?thesis by blast
qed

theorem start_failure_is_caught_witness:
  "open_target_app foo_device ''Nothing'' initial_state =
     (Inr (None, '''', ''''),
      print (ErrorStartingApp (OtherException ''unable to find application''))
        (perform (Spawn ['''']) (print (StartingApp ''Nothing'') initial_state)))
   \<and> open_target_app deaf_device ''Bar'' initial_state =
     (Inr (None, ''Bar'', ''com.example.bar''),
      print (ErrorStartingApp (OtherException ''unable to attach''))
        (perform (Attach 500)
           (perform (Spawn [''com.example.bar'']) (print (StartingApp ''Bar'') initial_state))))
   \<and> open_target_app deaf_device ''Foo'' initial_state =
     (Inr (None, ''Foo'', ''com.example.foo.beta''),
      print (ErrorStartingApp (OtherException ''unable to attach''))
        (perform (Attach 77) (print (StartingApp ''Foo'') initial_state)))
   \<and> open_target_app stuck_device ''Bar'' initial_state =
     (Inr (Some (Session 500), ''Bar'', ''com.example.bar''),
      print (ErrorStartingApp (OtherException ''unable to resume''))
        (perform (Resume 500)
           (perform (Attach 500)
              (perform (Spawn [''com.example.bar'']) (print (StartingApp ''Bar'') initial_state)))))"
proof -
  note t1 = start_failure_is_caught [OF foo_device_enumerates(1) foo_apps_selected(1),
      where e = "OtherException ''unable to find application''" and s = initial_state]
  note t2 = start_failure_is_caught [OF foo_device_enumerates(2) foo_apps_selected(2),
      where e = "OtherException ''unable to attach''" and p = 500 and s = initial_state]
  note t3 = start_failure_is_caught [OF foo_device_enumerates(2) foo_apps_selected(3),
      where e = "OtherException ''unable to attach''" and p = 77 and s = initial_state]
  note t4 = start_failure_is_caught [OF stuck_device_answers(1) foo_apps_selected(2),
      where e = "OtherException ''unable to resume''" and p = 500 and sess = "Session 500"
        and s = initial_state]
  have 1: "open_target_app foo_device ''Nothing'' initial_state =
     (Inr (None, '''', ''''),
      print (ErrorStartingApp (OtherException ''unable to find application''))
        (perform (Spawn ['''']) (print (StartingApp ''Nothing'') initial_state)))"
    using t1 foo_device_answers(1) by blast
  have 2: "open_target_app deaf_device ''Bar'' initial_state =
     (Inr (None, ''Bar'', ''com.example.bar''),
      print (ErrorStartingApp (OtherException ''unable to attach''))
        (perform (Attach 500)
           (perform (Spawn [''com.example.bar'']) (print (StartingApp ''Bar'') initial_state))))"
    using t2 foo_device_answers(2) foo_device_answers(3) [of 500] by blast
  have n: "(77::nat) \<noteq> 0" by simp
  have 3: "open_target_app deaf_device ''Foo'' initial_state =
     (Inr (None, ''Foo'', ''com.example.foo.beta''),
      print (ErrorStartingApp (OtherException ''unable to attach''))
        (perform (Attach 77) (print (StartingApp ''Foo'') initial_state)))"
    using t3 n foo_device_answers(3) [of 77] by blast
  have 4: "open_target_app stuck_device ''Bar'' initial_state =
     (Inr (Some (Session 500), ''Bar'', ''com.example.bar''),
      print (ErrorStartingApp (OtherException ''unable to resume''))
        (perform (Resume 500)
           (perform (Attach 500)
              (perform (Spawn [''com.example.bar'']) (print (StartingApp ''Bar'') initial_state)))))"
    using t4 stuck_device_answers(2) stuck_device_answers(3) stuck_device_answers(4) by blast
  from 1 2 3 4 show ?thesis by blast
qed

theorem unknown_target_spawns_empty_identifier_witness:
  "filter (\<lambda>a. ''Nothing'' = app_identifier a \<or> ''Nothing'' = app_name a) foo_apps = []
   \<and> spawn_result foo_device [''''] = Inl (OtherException ''unable to find application'')
   \<and> open_target_app foo_device ''Nothing'' initial_state =
     (Inr (None, '''', ''''),
      print (ErrorStartingApp (OtherException ''unable to find application''))
        (perform (Spawn ['''']) (print (StartingApp ''Nothing'') initial_state)))"
  using unknown_target_spawns_empty_identifier
          [OF foo_device_enumerates(1) foo_apps_named_Nothing foo_device_answers(1),
           where s = initial_state]
        foo_apps_named_Nothing foo_device_answers(1)
  by blast


section \<open>Progress\<close>

lemma progress_resets_last_sent:
  "last_sent (progress filename size' size' v) = 0"
  by (simp add: progress_def Let_def)





section \<open>The completion signal\<close>

text \<open>
  C7. Once \<open>FINISHED\<close> is set it stays set, whatever operations follow in the run: no
  operation of the program clears it. Setting it twice is the same as setting it once,
  and each of the three places that set it (the \<open>done\<close> notification, the handler of
  \<open>generate_ipa\<close>, the end of \<open>main\<close>) leaves it set.
\<close>

theorem FINISHED_stays_set:
  "(FINISHED (run w xs s) \<longrightarrow> FINISHED (run w (xs @ ys) s))
   \<and> FINISHED_set (FINISHED_set s) = FINISHED_set s
   \<and> FINISHED (step w (OnMessage (Some [''done'' \<mapsto> v])) s)
   \<and> FINISHED (generate_ipa_except e s)
   \<and> FINISHED (step w MainEnd s)"
proof -
  have 1: "FINISHED (run w xs s) \<longrightarrow> FINISHED (run w (xs @ ys) s)"
    by (simp add: run_append run_FINISHED)
  have 2: "FINISHED_set (FINISHED_set s) = FINISHED_set s"
    by (simp add: FINISHED_set_def)
  have 3: "FINISHED (step w (OnMessage (Some [''done'' \<mapsto> v])) s)"
    by (simp add: on_message_def on_dump_def on_app_def on_done_def FINISHED_set_simps)
  have 4: "FINISHED (step w MainEnd s)"
    by (simp add: FINISHED_set_simps)
  from 1 2 3 4 generate_ipa_except_FINISHED show ?thesis by blast
qed

theorem FINISHED_stays_set_witness:
  "FINISHED (run calm_world [OnMessage completed] initial_state)
   \<and> FINISHED (run calm_world
        ([OnMessage completed] @ [GenerateIpa ''/tmp/Payload'' ''Foo'', OnMessage foo_plist, MainEnd])
        initial_state)"
proof -
  have 1: "FINISHED (run calm_world [OnMessage completed] initial_state)"
    by (simp add: completed_def on_message_def on_dump_def on_app_def on_done_def
        FINISHED_set_simps)
  from FINISHED_stays_set [of calm_world "[OnMessage completed]" initial_state
      "[GenerateIpa ''/tmp/Payload'' ''Foo'', OnMessage foo_plist, MainEnd]"] 1
  show ?thesis by blast
qed

end
